theory Spec2Isabelle
  imports Main "HOL-Library.Word"
begin

section \<open>PaymentServiceControl: the payment service sample's control object\<close>

text \<open>
  A shallow embedding of \<^verbatim>\<open>paymentservice/src/PaymentServiceControl.cpp\<close>.
  The file holds one formatting helper (\<^verbatim>\<open>receiptToString\<close>), six operations that
  ask the platform's payment manager for something and connect the reply's
  \<^verbatim>\<open>finished()\<close> signal to a slot, and the six slots.

  What a call does to its surroundings is modelled as the ordered list of its effects:
  a request made on \<^verbatim>\<open>m_paymentManager\<close>, a \<^verbatim>\<open>connect\<close>, an emitted signal, a
  \<^verbatim>\<open>deleteLater()\<close>. The \<^verbatim>\<open>qDebug()\<close> lines write a diagnostic log only and
  are left out of the trace.
\<close>

subsection \<open>Platform values the code reads\<close>

text \<open>
  A \<^verbatim>\<open>QString\<close> is a \<^typ>\<open>string\<close>; a C++ \<^verbatim>\<open>int\<close> is a 32-bit word, read as a
  signed number by \<^const>\<open>sint\<close>. Of a \<^verbatim>\<open>QDateTime\<close> the code observes two things,
  \<^verbatim>\<open>isNull()\<close> and \<^verbatim>\<open>toString()\<close>; the record holds these two observations and
  relates them in no way.
\<close>

record QDateTime =
  isNull :: bool
  toString :: string

text \<open>
  \<^verbatim>\<open>bb::platform::PurchaseReceipt\<close>, by the accessors \<^verbatim>\<open>receiptToString\<close> calls.
  The item state is an enumeration of the platform; the code only casts it to
  \<^verbatim>\<open>int\<close>, so the field holds that integer.
\<close>

record PurchaseReceipt =
  date :: QDateTime
  digitalGoodId :: string
  digitalGoodSku :: string
  purchaseId :: string
  licenseKey :: string
  purchaseMetadata :: string
  state :: "32 word"
  isSubscription :: bool
  startDate :: QDateTime
  endDate :: QDateTime
  initialPeriod :: "32 word"

text \<open>
  The six reply classes. Each answers \<^verbatim>\<open>isError()\<close>, \<^verbatim>\<open>errorCode()\<close> and
  \<^verbatim>\<open>errorText()\<close>, and has accessors of its own for the successful result. The four
  values of a subscription-terms reply are passed on as they are; they are strings here.
\<close>

record PaymentReply =
  isError :: bool
  errorCode :: "32 word"
  errorText :: string

record PurchaseReply = PaymentReply +
  receipt :: PurchaseReceipt

record ExistingPurchasesReply = PaymentReply +
  purchases :: "PurchaseReceipt list"

record PriceReply = PaymentReply +
  price :: string

record SubscriptionTermsReply = PaymentReply +
  price :: string
  initialPeriod :: string
  renewalPrice :: string
  renewalPeriod :: string

record SubscriptionStatusReply = PaymentReply +
  isActive :: bool

record CancelSubscriptionReply = PaymentReply +
  isCanceled :: bool

text \<open>
  The object a slot finds behind \<^verbatim>\<open>sender()\<close>: a reply of one of the six classes.
  \<^verbatim>\<open>qobject_cast<T*>\<close> yields the null pointer for a null sender and for an object
  of another class.
\<close>

datatype QObject =
    PurchaseReplyObject PurchaseReply
  | ExistingPurchasesReplyObject ExistingPurchasesReply
  | PriceReplyObject PriceReply
  | SubscriptionTermsReplyObject SubscriptionTermsReply
  | SubscriptionStatusReplyObject SubscriptionStatusReply
  | CancelSubscriptionReplyObject CancelSubscriptionReply

subsection \<open>Effects\<close>

text \<open>The six requests of \<^verbatim>\<open>bb::platform::PaymentManager\<close> the operations call.\<close>

datatype request =
    requestPurchase string string string string
  | requestExistingPurchases bool
  | requestPrice string string
  | requestSubscriptionTerms string string
  | requestSubscriptionStatus string string
  | requestCancelSubscription string

text \<open>The slots named in the \<^verbatim>\<open>connect\<close> calls.\<close>

datatype slot =
    SLOT_purchaseResponse
  | SLOT_existingPurchasesResponse
  | SLOT_priceResponse
  | SLOT_subscriptionTermsResponse
  | SLOT_subscriptionStatusResponse
  | SLOT_cancelSubscriptionResponse

text \<open>The signals of the control: one shared error signal, one success signal per kind.\<close>

datatype signal =
    infoResponseError "32 word" string
  | purchaseResponseSuccess string
  | existingPurchasesResponseSuccess string
  | priceResponseSuccess string
  | subscriptionTermsResponseSuccess string string string string
  | checkStatusResponseSuccess bool
  | cancelSubscriptionResponseSuccess bool

text \<open>
  \<open>Request q\<close>: the call \<open>q\<close> on \<^verbatim>\<open>m_paymentManager\<close>, which returns a reply.
  \<open>Connect s\<close>: \<^verbatim>\<open>connect(reply, SIGNAL(finished()), SLOT(s()))\<close> on the reply just
  returned. \<open>Emit g\<close>: \<^verbatim>\<open>emit g\<close>. \<open>DeleteLater o\<close>: \<^verbatim>\<open>reply->deleteLater()\<close> on
  the sender \<open>o\<close>.
\<close>

datatype effect =
    Request request
  | Connect slot
  | Emit signal
  | DeleteLater QObject

text \<open>
  \<^verbatim>\<open>Q_ASSERT(reply)\<close> after the cast: a slot run with a sender that is not a reply
  of its class stops there, before any effect. (Compiled without assertions the slot
  would go on to read through the null pointer; the model has the one failure for
  both.)
\<close>

datatype error = AssertionFailed

subsection \<open>receiptToString\<close>

text \<open>\<^verbatim>\<open>QString::number(int)\<close>: the decimal digits, with a minus sign below zero.\<close>

fun digits :: "nat \<Rightarrow> string" where
  "digits n =
     (if n < 10 then [''0123456789'' ! n]
      else digits (n div 10) @ [''0123456789'' ! (n mod 10)])"

declare digits.simps [simp del]

definition QString_number :: "int \<Rightarrow> string" where
  "QString_number n = (if n < 0 then CHR ''-'' # digits (nat (- n)) else digits (nat n))"

definition receiptToString :: "PurchaseReceipt \<Rightarrow> string" where
  "receiptToString r =
     (let initialPeriod = QString_number (sint (PurchaseReceipt.initialPeriod r));
          startDate = PurchaseReceipt.startDate r;
          startDateStr = (if isNull startDate then ''N/A'' else toString startDate);
          endDate = PurchaseReceipt.endDate r;
          endDateStr = (if isNull endDate then ''N/A'' else toString endDate);
          isSubscr = (if isSubscription r then ''true'' else ''false'');
          itemStateStr = QString_number (sint (state r));
          displayString = ''Date: '' @ toString (date r) @
            ''\<newline>ID/SKU: '' @ digitalGoodId r @ ''/'' @ digitalGoodSku r @
            ''\<newline>PurchaseID/licenseKey: '' @ purchaseId r @ ''/'' @ licenseKey r @
            ''\<newline>Metadata: '' @ purchaseMetadata r @
            ''\<newline>ItemState/isSubscription?: '' @ itemStateStr @ ''/'' @ isSubscr @
            ''\<newline>Start/End: '' @ startDateStr @ ''/'' @ endDateStr @
            ''\<newline>InitialPeriod: '' @ initialPeriod @ ''\<newline>''
      in displayString)"

subsection \<open>The operations\<close>

text \<open>
  Each operation returns at once on an empty identifier; otherwise it makes its request
  and connects the reply. The first parameter is \<^verbatim>\<open>id\<close> in the source (\<open>ident\<close>
  here, \<open>id\<close> being HOL's identity function), and the parameter of
  \<^verbatim>\<open>cancelSubscription\<close> is primed, its name being a field of the receipt.
  The signal and the slot of every \<^verbatim>\<open>connect\<close> exist, so \<^verbatim>\<open>Q_ASSERT(ok)\<close>
  holds.
\<close>

definition purchase :: "string \<Rightarrow> string \<Rightarrow> string \<Rightarrow> string \<Rightarrow> effect list" where
  "purchase ident sku name metadata =
     (if ident = [] then []
      else [Request (requestPurchase ident sku name metadata),
            Connect SLOT_purchaseResponse])"

definition getExisting :: "bool \<Rightarrow> effect list" where
  "getExisting refresh =
     [Request (requestExistingPurchases refresh), Connect SLOT_existingPurchasesResponse]"

definition getPrice :: "string \<Rightarrow> string \<Rightarrow> effect list" where
  "getPrice ident sku =
     (if ident = [] then []
      else [Request (requestPrice ident sku), Connect SLOT_priceResponse])"

definition getSubscriptionTerms :: "string \<Rightarrow> string \<Rightarrow> effect list" where
  "getSubscriptionTerms ident sku =
     (if ident = [] then []
      else [Request (requestSubscriptionTerms ident sku),
            Connect SLOT_subscriptionTermsResponse])"

definition checkSubscriptionStatus :: "string \<Rightarrow> string \<Rightarrow> effect list" where
  "checkSubscriptionStatus ident sku =
     (if ident = [] then []
      else [Request (requestSubscriptionStatus ident sku),
            Connect SLOT_subscriptionStatusResponse])"

definition cancelSubscription :: "string \<Rightarrow> effect list" where
  "cancelSubscription purchaseId' =
     (if purchaseId' = [] then []
      else [Request (requestCancelSubscription purchaseId'),
            Connect SLOT_cancelSubscriptionResponse])"

subsection \<open>The slots\<close>

text \<open>
  A slot takes what \<^verbatim>\<open>sender()\<close> returns: \<open>None\<close> for the null pointer. The first
  equation of each is the successful cast; every other sender fails the assertion.
\<close>

fun purchaseResponse :: "QObject option \<Rightarrow> error + effect list" where
  "purchaseResponse (Some (PurchaseReplyObject reply)) =
     Inr ((if isError reply
           then [Emit (infoResponseError (errorCode reply) (errorText reply))]
           else (let displayString = receiptToString (receipt reply)
                 in [Emit (purchaseResponseSuccess displayString)]))
          @ [DeleteLater (PurchaseReplyObject reply)])"
| "purchaseResponse _ = Inl AssertionFailed"

text \<open>
  The \<^verbatim>\<open>Q_FOREACH\<close> loop of \<^verbatim>\<open>existingPurchasesResponse\<close>: the receipts still to
  visit, and \<^verbatim>\<open>displayString\<close> as built so far.
\<close>

fun foreach_receipts :: "PurchaseReceipt list \<Rightarrow> string \<Rightarrow> string" where
  "foreach_receipts [] displayString = displayString"
| "foreach_receipts (r # receipts) displayString =
     foreach_receipts receipts (displayString @ (receiptToString r @ ''\<newline>''))"

fun existingPurchasesResponse :: "QObject option \<Rightarrow> error + effect list" where
  "existingPurchasesResponse (Some (ExistingPurchasesReplyObject reply)) =
     Inr ((if isError reply
           then [Emit (infoResponseError (errorCode reply) (errorText reply))]
           else (let receipts = purchases reply
                 in if receipts = []
                    then [Emit (existingPurchasesResponseSuccess ''(No purchases)'')]
                    else (let displayString = foreach_receipts receipts []
                          in [Emit (existingPurchasesResponseSuccess displayString)])))
          @ [DeleteLater (ExistingPurchasesReplyObject reply)])"
| "existingPurchasesResponse _ = Inl AssertionFailed"

fun priceResponse :: "QObject option \<Rightarrow> error + effect list" where
  "priceResponse (Some (PriceReplyObject reply)) =
     Inr ((if isError reply
           then [Emit (infoResponseError (errorCode reply) (errorText reply))]
           else [Emit (priceResponseSuccess (PriceReply.price reply))])
          @ [DeleteLater (PriceReplyObject reply)])"
| "priceResponse _ = Inl AssertionFailed"

fun subscriptionTermsResponse :: "QObject option \<Rightarrow> error + effect list" where
  "subscriptionTermsResponse (Some (SubscriptionTermsReplyObject reply)) =
     Inr ((if isError reply
           then [Emit (infoResponseError (errorCode reply) (errorText reply))]
           else [Emit (subscriptionTermsResponseSuccess
                   (SubscriptionTermsReply.price reply)
                   (SubscriptionTermsReply.initialPeriod reply)
                   (renewalPrice reply) (renewalPeriod reply))])
          @ [DeleteLater (SubscriptionTermsReplyObject reply)])"
| "subscriptionTermsResponse _ = Inl AssertionFailed"

fun subscriptionStatusResponse :: "QObject option \<Rightarrow> error + effect list" where
  "subscriptionStatusResponse (Some (SubscriptionStatusReplyObject reply)) =
     Inr ((if isError reply
           then [Emit (infoResponseError (errorCode reply) (errorText reply))]
           else [Emit (checkStatusResponseSuccess (isActive reply))])
          @ [DeleteLater (SubscriptionStatusReplyObject reply)])"
| "subscriptionStatusResponse _ = Inl AssertionFailed"

fun cancelSubscriptionResponse :: "QObject option \<Rightarrow> error + effect list" where
  "cancelSubscriptionResponse (Some (CancelSubscriptionReplyObject reply)) =
     Inr ((if isError reply
           then [Emit (infoResponseError (errorCode reply) (errorText reply))]
           else [Emit (cancelSubscriptionResponseSuccess (isCanceled reply))])
          @ [DeleteLater (CancelSubscriptionReplyObject reply)])"
| "cancelSubscriptionResponse _ = Inl AssertionFailed"

subsection \<open>Reading a trace and a text\<close>

text \<open>The signals a slot emitted, in order; none when the assertion failed.\<close>

fun emitted :: "effect list \<Rightarrow> signal list" where
  "emitted [] = []"
| "emitted (Emit g # es) = g # emitted es"
| "emitted (e # es) = emitted es"

fun notifications :: "error + effect list \<Rightarrow> signal list" where
  "notifications (Inl e) = []"
| "notifications (Inr es) = emitted es"

text \<open>The requests made on the payment manager, in order.\<close>

fun requests :: "effect list \<Rightarrow> request list" where
  "requests [] = []"
| "requests (Request q # es) = q # requests es"
| "requests (e # es) = requests es"

text \<open>Pieces of text laid out one after the other, a newline after each.\<close>

definition unlines :: "string list \<Rightarrow> string" where
  "unlines ls = concat (map (\<lambda>l. l @ ''\<newline>'') ls)"

subsection \<open>Delivery of a finished reply\<close>

text \<open>
  The class of the reply each request returns, as the operations declare the pointer
  they receive (\<^verbatim>\<open>const PurchaseReply *reply = m_paymentManager->requestPurchase(...)\<close>
  and its five siblings).
\<close>

fun returns :: "request \<Rightarrow> QObject \<Rightarrow> bool" where
  "returns (requestPurchase i sku name metadata) (PurchaseReplyObject reply) = True"
| "returns (requestExistingPurchases refresh) (ExistingPurchasesReplyObject reply) = True"
| "returns (requestPrice i sku) (PriceReplyObject reply) = True"
| "returns (requestSubscriptionTerms i sku) (SubscriptionTermsReplyObject reply) = True"
| "returns (requestSubscriptionStatus i sku) (SubscriptionStatusReplyObject reply) = True"
| "returns (requestCancelSubscription i) (CancelSubscriptionReplyObject reply) = True"
| "returns q obj = False"

text \<open>
  \<^verbatim>\<open>SLOT(name())\<close> names the member function the meta-object system runs when the
  connected signal fires.
\<close>

fun invoke :: "slot \<Rightarrow> QObject option \<Rightarrow> error + effect list" where
  "invoke SLOT_purchaseResponse sender = purchaseResponse sender"
| "invoke SLOT_existingPurchasesResponse sender = existingPurchasesResponse sender"
| "invoke SLOT_priceResponse sender = priceResponse sender"
| "invoke SLOT_subscriptionTermsResponse sender = subscriptionTermsResponse sender"
| "invoke SLOT_subscriptionStatusResponse sender = subscriptionStatusResponse sender"
| "invoke SLOT_cancelSubscriptionResponse sender = cancelSubscriptionResponse sender"

subsection \<open>Example values\<close>

text \<open>Receipts and replies on which the properties below are evaluated.\<close>

definition example_receipt :: PurchaseReceipt where
  "example_receipt =
     \<lparr>date = \<lparr>isNull = False, toString = ''Mon Jan 2 10:00:00 2012''\<rparr>,
      digitalGoodId = ''123'', digitalGoodSku = ''sku1'', purchaseId = ''p1'',
      licenseKey = ''key'', purchaseMetadata = ''meta'', state = 1, isSubscription = True,
      startDate = \<lparr>isNull = True, toString = []\<rparr>,
      endDate = \<lparr>isNull = False, toString = ''Tue Jan 3 10:00:00 2012''\<rparr>,
      PurchaseReceipt.initialPeriod = 30\<rparr>"

definition other_receipt :: PurchaseReceipt where
  "other_receipt =
     \<lparr>date = \<lparr>isNull = False, toString = ''Wed Feb 1 09:30:00 2012''\<rparr>,
      digitalGoodId = ''456'', digitalGoodSku = ''sku2'', purchaseId = ''p2'',
      licenseKey = [], purchaseMetadata = [], state = 0, isSubscription = False,
      startDate = \<lparr>isNull = True, toString = []\<rparr>,
      endDate = \<lparr>isNull = True, toString = []\<rparr>,
      PurchaseReceipt.initialPeriod = - 1\<rparr>"

definition dated_receipt :: PurchaseReceipt where
  "dated_receipt =
     \<lparr>date = \<lparr>isNull = False, toString = ''Thu Mar 1 12:00:00 2012''\<rparr>,
      digitalGoodId = ''789'', digitalGoodSku = ''sku3'', purchaseId = ''p3'',
      licenseKey = ''k3'', purchaseMetadata = ''gold'', state = 2, isSubscription = True,
      startDate = \<lparr>isNull = False, toString = ''Thu Mar 1 12:00:00 2012''\<rparr>,
      endDate = \<lparr>isNull = False, toString = ''Sun Apr 1 12:00:00 2012''\<rparr>,
      PurchaseReceipt.initialPeriod = 31\<rparr>"

definition example_existing :: "PurchaseReceipt list \<Rightarrow> ExistingPurchasesReply" where
  "example_existing rs = \<lparr>isError = False, errorCode = 0, errorText = [], purchases = rs\<rparr>"

definition failed_purchase :: PurchaseReply where
  "failed_purchase =
     \<lparr>isError = True, errorCode = 3, errorText = ''Payment system is busy'',
      receipt = other_receipt\<rparr>"

definition failed_existing :: ExistingPurchasesReply where
  "failed_existing =
     \<lparr>isError = True, errorCode = 3, errorText = ''Payment system is busy'',
      purchases = [example_receipt]\<rparr>"

definition failed_price :: PriceReply where
  "failed_price =
     \<lparr>isError = True, errorCode = 3, errorText = ''Payment system is busy'',
      PriceReply.price = []\<rparr>"

definition failed_terms :: SubscriptionTermsReply where
  "failed_terms =
     \<lparr>isError = True, errorCode = 3, errorText = ''Payment system is busy'',
      SubscriptionTermsReply.price = [], SubscriptionTermsReply.initialPeriod = [],
      renewalPrice = [], renewalPeriod = []\<rparr>"

definition failed_status :: SubscriptionStatusReply where
  "failed_status =
     \<lparr>isError = True, errorCode = 3, errorText = ''Payment system is busy'',
      isActive = True\<rparr>"

definition failed_cancel :: CancelSubscriptionReply where
  "failed_cancel =
     \<lparr>isError = True, errorCode = 3, errorText = ''Payment system is busy'',
      isCanceled = True\<rparr>"

definition price_found :: PriceReply where
  "price_found =
     \<lparr>isError = False, errorCode = 0, errorText = [], PriceReply.price = ''$0.99''\<rparr>"

definition status_active :: SubscriptionStatusReply where
  "status_active = \<lparr>isError = False, errorCode = 0, errorText = [], isActive = True\<rparr>"

definition cancel_refused :: CancelSubscriptionReply where
  "cancel_refused = \<lparr>isError = False, errorCode = 0, errorText = [], isCanceled = False\<rparr>"

section \<open>Properties\<close>

subsection \<open>The loop and the end of a block\<close>

lemma foreach_receipts_acc:
  "foreach_receipts rs acc = acc @ unlines (map receiptToString rs)"
  by (induction rs arbitrary: acc) (simp_all add: unlines_def)

lemma receiptToString_ends_newline:
  "\<exists>body. receiptToString r = body @ ''\<newline>''"
  unfolding receiptToString_def Let_def
  by (simp only: append_assoc [symmetric]) blast

lemma foreach_receipts_ends_blank_line:
  assumes "rs \<noteq> []"
  shows "\<exists>body. foreach_receipts rs [] = body @ ''\<newline>\<newline>''"
proof -
  from assms obtain ys y where rs: "rs = ys @ [y]"
    by (metis rev_exhaust)
  obtain b where b: "receiptToString y = b @ ''\<newline>''"
    using receiptToString_ends_newline by blast
  have "foreach_receipts rs [] = (unlines (map receiptToString ys) @ b) @ ''\<newline>\<newline>''"
    by (simp add: foreach_receipts_acc rs unlines_def b)
  then show ?thesis by blast
qed

subsection \<open>Existing purchases: the blocks of the payload\<close>

text \<open>
  C1. A successful existing-purchases reply with a non-empty list of \<open>N\<close> receipts makes
  the slot emit one payload: the formatted blocks of the \<open>N\<close> receipts, in the order of
  the list, a newline after each. A block ends in a newline of its own, so the added
  newline is an empty line between one block and the next.
\<close>

theorem existingPurchasesResponse_blocks:
  assumes "\<not> isError reply" and "purchases reply \<noteq> []"
  shows "existingPurchasesResponse (Some (ExistingPurchasesReplyObject reply)) =
     Inr [Emit (existingPurchasesResponseSuccess
                  (unlines (map receiptToString (purchases reply)))),
          DeleteLater (ExistingPurchasesReplyObject reply)] \<and>
     length (map receiptToString (purchases reply)) = length (purchases reply)"
  using assms by (simp add: foreach_receipts_acc)

theorem existingPurchasesResponse_blocks_witness:
  "\<not> isError (example_existing [example_receipt, other_receipt]) \<and>
   purchases (example_existing [example_receipt, other_receipt]) \<noteq> [] \<and>
   existingPurchasesResponse
     (Some (ExistingPurchasesReplyObject (example_existing [example_receipt, other_receipt]))) =
     Inr [Emit (existingPurchasesResponseSuccess
       ''Date: Mon Jan 2 10:00:00 2012\<newline>ID/SKU: 123/sku1\<newline>PurchaseID/licenseKey: p1/key\<newline>Metadata: meta\<newline>ItemState/isSubscription?: 1/true\<newline>Start/End: N/A/Tue Jan 3 10:00:00 2012\<newline>InitialPeriod: 30\<newline>\<newline>Date: Wed Feb 1 09:30:00 2012\<newline>ID/SKU: 456/sku2\<newline>PurchaseID/licenseKey: p2/\<newline>Metadata: \<newline>ItemState/isSubscription?: 0/false\<newline>Start/End: N/A/N/A\<newline>InitialPeriod: -1\<newline>\<newline>''),
          DeleteLater (ExistingPurchasesReplyObject
            (example_existing [example_receipt, other_receipt]))]"
proof -
  have a: "\<not> isError (example_existing [example_receipt, other_receipt])"
    by (simp add: example_existing_def)
  have b: "purchases (example_existing [example_receipt, other_receipt]) \<noteq> []"
    by (simp add: example_existing_def)
  show ?thesis
    using a b existingPurchasesResponse_blocks [OF a b]
    by (simp add: example_existing_def example_receipt_def other_receipt_def unlines_def
        receiptToString_def QString_number_def digits.simps)
qed

subsection \<open>One notification for each completion\<close>

text \<open>
  C2. Run with the reply that finished as its sender, each of the six slots emits exactly
  one signal and then calls \<open>deleteLater\<close> on that reply: the signal is the shared error
  signal when the reply is an error, and the success signal of the slot's kind
  otherwise. The release is the last effect on both branches.
\<close>

theorem completion_one_notification_then_release:
  "purchaseResponse (Some (PurchaseReplyObject p)) =
     Inr [Emit (if isError p then infoResponseError (errorCode p) (errorText p)
                else purchaseResponseSuccess (receiptToString (receipt p))),
          DeleteLater (PurchaseReplyObject p)] \<and>
   existingPurchasesResponse (Some (ExistingPurchasesReplyObject x)) =
     Inr [Emit (if isError x then infoResponseError (errorCode x) (errorText x)
                else existingPurchasesResponseSuccess
                       (if purchases x = [] then ''(No purchases)''
                        else foreach_receipts (purchases x) [])),
          DeleteLater (ExistingPurchasesReplyObject x)] \<and>
   priceResponse (Some (PriceReplyObject q)) =
     Inr [Emit (if isError q then infoResponseError (errorCode q) (errorText q)
                else priceResponseSuccess (PriceReply.price q)),
          DeleteLater (PriceReplyObject q)] \<and>
   subscriptionTermsResponse (Some (SubscriptionTermsReplyObject t)) =
     Inr [Emit (if isError t then infoResponseError (errorCode t) (errorText t)
                else subscriptionTermsResponseSuccess
                       (SubscriptionTermsReply.price t)
                       (SubscriptionTermsReply.initialPeriod t)
                       (renewalPrice t) (renewalPeriod t)),
          DeleteLater (SubscriptionTermsReplyObject t)] \<and>
   subscriptionStatusResponse (Some (SubscriptionStatusReplyObject s)) =
     Inr [Emit (if isError s then infoResponseError (errorCode s) (errorText s)
                else checkStatusResponseSuccess (isActive s)),
          DeleteLater (SubscriptionStatusReplyObject s)] \<and>
   cancelSubscriptionResponse (Some (CancelSubscriptionReplyObject c)) =
     Inr [Emit (if isError c then infoResponseError (errorCode c) (errorText c)
                else cancelSubscriptionResponseSuccess (isCanceled c)),
          DeleteLater (CancelSubscriptionReplyObject c)]"
proof (intro conjI)
  show "existingPurchasesResponse (Some (ExistingPurchasesReplyObject x)) =
     Inr [Emit (if isError x then infoResponseError (errorCode x) (errorText x)
                else existingPurchasesResponseSuccess
                       (if purchases x = [] then ''(No purchases)''
                        else foreach_receipts (purchases x) [])),
          DeleteLater (ExistingPurchasesReplyObject x)]"
    by (cases "isError x"; cases "purchases x = []") (simp_all add: Let_def)
qed (simp_all add: Let_def)

theorem completion_one_notification_then_release_witness:
  "purchaseResponse (Some (PurchaseReplyObject failed_purchase)) =
     Inr [Emit (infoResponseError 3 ''Payment system is busy''),
          DeleteLater (PurchaseReplyObject failed_purchase)] \<and>
   notifications (purchaseResponse (Some (PurchaseReplyObject failed_purchase))) =
     [infoResponseError 3 ''Payment system is busy''] \<and>
   priceResponse (Some (PriceReplyObject price_found)) =
     Inr [Emit (priceResponseSuccess ''$0.99''), DeleteLater (PriceReplyObject price_found)] \<and>
   notifications (priceResponse (Some (PriceReplyObject price_found))) =
     [priceResponseSuccess ''$0.99'']"
  using completion_one_notification_then_release [of failed_purchase _ price_found]
  by (simp add: failed_purchase_def price_found_def)

subsection \<open>Empty identifiers\<close>

text \<open>
  C3. Called with an empty identifier, \<open>purchase\<close>, \<open>getPrice\<close>, \<open>getSubscriptionTerms\<close>,
  \<open>checkSubscriptionStatus\<close> and \<open>cancelSubscription\<close> have no effect at all: no request
  is made on the payment manager and no signal is emitted, whatever the other
  parameters are.
\<close>

theorem empty_identifier_no_effect:
  "purchase [] sku name metadata = [] \<and>
   getPrice [] sku = [] \<and>
   getSubscriptionTerms [] sku = [] \<and>
   checkSubscriptionStatus [] sku = [] \<and>
   cancelSubscription [] = []"
  by (simp add: purchase_def getPrice_def getSubscriptionTerms_def
      checkSubscriptionStatus_def cancelSubscription_def)

theorem empty_identifier_no_effect_witness:
  "purchase [] ''sku1'' ''name'' ''{}'' = [] \<and>
   requests (purchase [] ''sku1'' ''name'' ''{}'') = [] \<and>
   emitted (purchase [] ''sku1'' ''name'' ''{}'') = []"
  using empty_identifier_no_effect [of "''sku1''" "''name''" "''{}''"]
  by simp

subsection \<open>Provider errors\<close>

text \<open>
  C4. When the reply that finished is an error with code \<open>C\<close> and text \<open>T\<close>, the slot of
  every one of the six kinds emits the one signal \<open>infoResponseError C T\<close>, and no other:
  the code and the text are passed on as the reply gives them.
\<close>

theorem provider_error_forwarded:
  "(isError p \<and> errorCode p = C \<and> errorText p = T \<longrightarrow>
      notifications (purchaseResponse (Some (PurchaseReplyObject p))) =
        [infoResponseError C T]) \<and>
   (isError x \<and> errorCode x = C \<and> errorText x = T \<longrightarrow>
      notifications (existingPurchasesResponse (Some (ExistingPurchasesReplyObject x))) =
        [infoResponseError C T]) \<and>
   (isError q \<and> errorCode q = C \<and> errorText q = T \<longrightarrow>
      notifications (priceResponse (Some (PriceReplyObject q))) =
        [infoResponseError C T]) \<and>
   (isError t \<and> errorCode t = C \<and> errorText t = T \<longrightarrow>
      notifications (subscriptionTermsResponse (Some (SubscriptionTermsReplyObject t))) =
        [infoResponseError C T]) \<and>
   (isError s \<and> errorCode s = C \<and> errorText s = T \<longrightarrow>
      notifications (subscriptionStatusResponse (Some (SubscriptionStatusReplyObject s))) =
        [infoResponseError C T]) \<and>
   (isError c \<and> errorCode c = C \<and> errorText c = T \<longrightarrow>
      notifications (cancelSubscriptionResponse (Some (CancelSubscriptionReplyObject c))) =
        [infoResponseError C T])"
  by simp

theorem provider_error_forwarded_witness:
  "notifications (purchaseResponse (Some (PurchaseReplyObject failed_purchase))) =
     [infoResponseError 3 ''Payment system is busy''] \<and>
   notifications
     (existingPurchasesResponse (Some (ExistingPurchasesReplyObject failed_existing))) =
     [infoResponseError 3 ''Payment system is busy''] \<and>
   notifications (priceResponse (Some (PriceReplyObject failed_price))) =
     [infoResponseError 3 ''Payment system is busy''] \<and>
   notifications
     (subscriptionTermsResponse (Some (SubscriptionTermsReplyObject failed_terms))) =
     [infoResponseError 3 ''Payment system is busy''] \<and>
   notifications
     (subscriptionStatusResponse (Some (SubscriptionStatusReplyObject failed_status))) =
     [infoResponseError 3 ''Payment system is busy''] \<and>
   notifications
     (cancelSubscriptionResponse (Some (CancelSubscriptionReplyObject failed_cancel))) =
     [infoResponseError 3 ''Payment system is busy'']"
  using provider_error_forwarded
    [of failed_purchase 3 "''Payment system is busy''" failed_existing failed_price
        failed_terms failed_status failed_cancel]
  by (simp add: failed_purchase_def failed_existing_def failed_price_def failed_terms_def
      failed_status_def failed_cancel_def)

subsection \<open>Existing purchases: the empty list\<close>

text \<open>
  C5. A successful existing-purchases reply with an empty list makes the slot emit the
  payload \<open>(No purchases)\<close>, and nothing else.
\<close>

theorem existingPurchasesResponse_no_purchases:
  assumes "\<not> isError reply" and "purchases reply = []"
  shows "existingPurchasesResponse (Some (ExistingPurchasesReplyObject reply)) =
     Inr [Emit (existingPurchasesResponseSuccess ''(No purchases)''),
          DeleteLater (ExistingPurchasesReplyObject reply)]"
  using assms by simp

theorem existingPurchasesResponse_no_purchases_witness:
  "\<not> isError (example_existing []) \<and> purchases (example_existing []) = [] \<and>
   notifications (existingPurchasesResponse
     (Some (ExistingPurchasesReplyObject (example_existing [])))) =
     [existingPurchasesResponseSuccess ''(No purchases)'']"
proof -
  have a: "\<not> isError (example_existing [])"
    by (simp add: example_existing_def)
  have b: "purchases (example_existing []) = []"
    by (simp add: example_existing_def)
  show ?thesis
    using a b existingPurchasesResponse_no_purchases [OF a b] by simp
qed

subsection \<open>The receipt's text\<close>

text \<open>
  C6. In the text of a receipt the start date and the end date stand in one field,
  \<open>Start/End\<close>: each is \<open>N/A\<close> when the date is null and the date's own text otherwise.
  The dates reach the text through this field only: what stands before and after it
  does not depend on them.
\<close>

theorem receiptToString_dates:
  "\<exists>before after. \<forall>s e.
     receiptToString (r\<lparr>startDate := s, endDate := e\<rparr>) =
       before @ ''\<newline>Start/End: '' @
       (if isNull s then ''N/A'' else toString s) @ ''/'' @
       (if isNull e then ''N/A'' else toString e) @ ''\<newline>'' @ after"
proof -
  let ?before = "''Date: '' @ toString (date r) @
    ''\<newline>ID/SKU: '' @ digitalGoodId r @ ''/'' @ digitalGoodSku r @
    ''\<newline>PurchaseID/licenseKey: '' @ purchaseId r @ ''/'' @ licenseKey r @
    ''\<newline>Metadata: '' @ purchaseMetadata r @
    ''\<newline>ItemState/isSubscription?: '' @ QString_number (sint (state r)) @ ''/'' @
    (if isSubscription r then ''true'' else ''false'')"
  let ?after = "''InitialPeriod: '' @
    QString_number (sint (PurchaseReceipt.initialPeriod r)) @ ''\<newline>''"
  have "\<forall>s e.
     receiptToString (r\<lparr>startDate := s, endDate := e\<rparr>) =
       ?before @ ''\<newline>Start/End: '' @
       (if isNull s then ''N/A'' else toString s) @ ''/'' @
       (if isNull e then ''N/A'' else toString e) @ ''\<newline>'' @ ?after"
    by (simp add: receiptToString_def Let_def)
  then show ?thesis by blast
qed

theorem receiptToString_dates_witness:
  "receiptToString other_receipt =
     ''Date: Wed Feb 1 09:30:00 2012\<newline>ID/SKU: 456/sku2\<newline>PurchaseID/licenseKey: p2/\<newline>Metadata: \<newline>ItemState/isSubscription?: 0/false'' @
     ''\<newline>Start/End: N/A/N/A\<newline>'' @ ''InitialPeriod: -1\<newline>'' \<and>
   receiptToString dated_receipt =
     ''Date: Thu Mar 1 12:00:00 2012\<newline>ID/SKU: 789/sku3\<newline>PurchaseID/licenseKey: p3/k3\<newline>Metadata: gold\<newline>ItemState/isSubscription?: 2/true'' @
     ''\<newline>Start/End: Thu Mar 1 12:00:00 2012/Sun Apr 1 12:00:00 2012\<newline>'' @
     ''InitialPeriod: 31\<newline>''"
  using receiptToString_dates [of other_receipt] receiptToString_dates [of dated_receipt]
  by (simp add: other_receipt_def dated_receipt_def receiptToString_def
      QString_number_def digits.simps)

text \<open>
  C7. The text of a receipt is a function of the receipt alone and has a fixed layout:
  seven fields, a newline after each, in this order: the purchase date; the digital
  good's id and sku; the purchase id and the license key; the metadata; the item state
  and the subscription flag; the start and end dates; the initial period.
\<close>

theorem receiptToString_layout:
  "receiptToString r =
     unlines
       [''Date: '' @ toString (date r),
        ''ID/SKU: '' @ digitalGoodId r @ ''/'' @ digitalGoodSku r,
        ''PurchaseID/licenseKey: '' @ purchaseId r @ ''/'' @ licenseKey r,
        ''Metadata: '' @ purchaseMetadata r,
        ''ItemState/isSubscription?: '' @ QString_number (sint (state r)) @ ''/'' @
           (if isSubscription r then ''true'' else ''false''),
        ''Start/End: '' @
           (if isNull (startDate r) then ''N/A'' else toString (startDate r)) @ ''/'' @
           (if isNull (endDate r) then ''N/A'' else toString (endDate r)),
        ''InitialPeriod: '' @ QString_number (sint (PurchaseReceipt.initialPeriod r))]"
  by (simp add: receiptToString_def unlines_def Let_def)

theorem receiptToString_layout_witness:
  "receiptToString example_receipt =
     ''Date: Mon Jan 2 10:00:00 2012\<newline>ID/SKU: 123/sku1\<newline>PurchaseID/licenseKey: p1/key\<newline>Metadata: meta\<newline>ItemState/isSubscription?: 1/true\<newline>Start/End: N/A/Tue Jan 3 10:00:00 2012\<newline>InitialPeriod: 30\<newline>''"
  using receiptToString_layout [of example_receipt]
  by (simp add: example_receipt_def unlines_def QString_number_def digits.simps)

subsection \<open>What the guard reads\<close>

text \<open>
  C8. The guard of an operation reads the identifier and nothing else. With a non-empty
  identifier \<open>purchase\<close> makes its request even when sku, name and metadata are all
  empty, and it passes on whatever sku, name and metadata it is given; so do
  \<open>getPrice\<close>, \<open>getSubscriptionTerms\<close> and \<open>checkSubscriptionStatus\<close> with their sku.
  \<open>getExisting\<close> has no guard and makes its request for either value of \<open>refresh\<close>.
\<close>

theorem guard_reads_identifier_only:
  assumes "ident \<noteq> []"
  shows "purchase ident [] [] [] =
       [Request (requestPurchase ident [] [] []), Connect SLOT_purchaseResponse] \<and>
     purchase ident sku name metadata =
       [Request (requestPurchase ident sku name metadata), Connect SLOT_purchaseResponse] \<and>
     getPrice ident sku = [Request (requestPrice ident sku), Connect SLOT_priceResponse] \<and>
     getSubscriptionTerms ident sku =
       [Request (requestSubscriptionTerms ident sku),
        Connect SLOT_subscriptionTermsResponse] \<and>
     checkSubscriptionStatus ident sku =
       [Request (requestSubscriptionStatus ident sku),
        Connect SLOT_subscriptionStatusResponse] \<and>
     getExisting refresh =
       [Request (requestExistingPurchases refresh), Connect SLOT_existingPurchasesResponse]"
  using assms
  by (simp add: purchase_def getPrice_def getSubscriptionTerms_def
      checkSubscriptionStatus_def getExisting_def)

theorem guard_reads_identifier_only_witness:
  "''item1'' \<noteq> [] \<and>
   requests (purchase ''item1'' [] [] []) = [requestPurchase ''item1'' [] [] []] \<and>
   requests (getPrice ''item1'' []) = [requestPrice ''item1'' []]"
proof -
  have a: "''item1'' \<noteq> []" by simp
  show ?thesis
    using guard_reads_identifier_only [OF a, of "[]" "[]" "[]" False] by simp
qed

subsection \<open>Existing purchases: the end of the payload\<close>

text \<open>
  C9. For a non-empty list of receipts the payload of the existing-purchases success
  signal ends in two newlines: the one that ends the last block and the one the loop
  adds after it.
\<close>

theorem existingPurchasesResponse_trailing_blank_line:
  assumes "\<not> isError reply" and "purchases reply \<noteq> []"
  shows "\<exists>body. existingPurchasesResponse (Some (ExistingPurchasesReplyObject reply)) =
     Inr [Emit (existingPurchasesResponseSuccess (body @ ''\<newline>\<newline>'')),
          DeleteLater (ExistingPurchasesReplyObject reply)]"
proof -
  obtain body where "foreach_receipts (purchases reply) [] = body @ ''\<newline>\<newline>''"
    using foreach_receipts_ends_blank_line [OF assms(2)] by blast
  with assms show ?thesis by simp
qed

theorem existingPurchasesResponse_trailing_blank_line_witness:
  "\<not> isError (example_existing [other_receipt]) \<and>
   purchases (example_existing [other_receipt]) \<noteq> [] \<and>
   notifications (existingPurchasesResponse
     (Some (ExistingPurchasesReplyObject (example_existing [other_receipt])))) =
     [existingPurchasesResponseSuccess
       (''Date: Wed Feb 1 09:30:00 2012\<newline>ID/SKU: 456/sku2\<newline>PurchaseID/licenseKey: p2/\<newline>Metadata: \<newline>ItemState/isSubscription?: 0/false\<newline>Start/End: N/A/N/A\<newline>InitialPeriod: -1'' @
        ''\<newline>\<newline>'')]"
proof -
  have a: "\<not> isError (example_existing [other_receipt])"
    by (simp add: example_existing_def)
  have b: "purchases (example_existing [other_receipt]) \<noteq> []"
    by (simp add: example_existing_def)
  show ?thesis
    using a b existingPurchasesResponse_trailing_blank_line [OF a b]
    by (simp add: example_existing_def other_receipt_def receiptToString_def
        QString_number_def digits.simps)
qed

subsection \<open>Boolean results\<close>

text \<open>
  C10. On a reply that is not an error, the cancel-subscription slot emits its success
  signal with the reply's \<open>isCanceled\<close> flag and the subscription-status slot emits its
  success signal with the reply's \<open>isActive\<close> flag, each as the reply gives it. A reply
  that is not an error and whose flag is false exists, so the cancel-subscription
  success signal can carry \<open>False\<close>.
\<close>

theorem boolean_flag_forwarded:
  "(\<not> isError c \<longrightarrow>
      cancelSubscriptionResponse (Some (CancelSubscriptionReplyObject c)) =
        Inr [Emit (cancelSubscriptionResponseSuccess (isCanceled c)),
             DeleteLater (CancelSubscriptionReplyObject c)]) \<and>
   (\<not> isError s \<longrightarrow>
      subscriptionStatusResponse (Some (SubscriptionStatusReplyObject s)) =
        Inr [Emit (checkStatusResponseSuccess (isActive s)),
             DeleteLater (SubscriptionStatusReplyObject s)]) \<and>
   (\<exists>c'. \<not> isError c' \<and>
      notifications (cancelSubscriptionResponse (Some (CancelSubscriptionReplyObject c'))) =
        [cancelSubscriptionResponseSuccess False])"
proof (intro conjI impI)
  show "\<exists>c'. \<not> isError c' \<and>
      notifications (cancelSubscriptionResponse (Some (CancelSubscriptionReplyObject c'))) =
        [cancelSubscriptionResponseSuccess False]"
    by (rule exI [of _ cancel_refused]) (simp add: cancel_refused_def)
qed simp_all

theorem boolean_flag_forwarded_witness:
  "notifications (cancelSubscriptionResponse
      (Some (CancelSubscriptionReplyObject cancel_refused))) =
     [cancelSubscriptionResponseSuccess False] \<and>
   notifications (subscriptionStatusResponse
      (Some (SubscriptionStatusReplyObject status_active))) =
     [checkStatusResponseSuccess True]"
  using boolean_flag_forwarded [of cancel_refused status_active]
  by (simp add: cancel_refused_def status_active_def)

subsection \<open>From the request to the notification\<close>

text \<open>
  Whenever one of the six operations makes a request, the slot it connects is the one
  for the class of reply that request returns: run with such a reply as its sender, the
  slot passes its assertion, emits one signal and releases the reply.
\<close>

theorem issued_request_completes_once:
  assumes "tr = purchase i sku name metadata \<or> tr = getExisting refresh \<or>
           tr = getPrice i sku \<or> tr = getSubscriptionTerms i sku \<or>
           tr = checkSubscriptionStatus i sku \<or> tr = cancelSubscription i"
      and "tr = [Request q, Connect sl]"
      and "returns q obj"
  shows "\<exists>g. invoke sl (Some obj) = Inr [Emit g, DeleteLater obj]"
proof -
  have sl: "(q, sl) \<in> {(requestPurchase i sku name metadata, SLOT_purchaseResponse),
                      (requestExistingPurchases refresh, SLOT_existingPurchasesResponse),
                      (requestPrice i sku, SLOT_priceResponse),
                      (requestSubscriptionTerms i sku, SLOT_subscriptionTermsResponse),
                      (requestSubscriptionStatus i sku, SLOT_subscriptionStatusResponse),
                      (requestCancelSubscription i, SLOT_cancelSubscriptionResponse)}"
    using assms(1,2)
    by (auto simp: purchase_def getExisting_def getPrice_def getSubscriptionTerms_def
        checkSubscriptionStatus_def cancelSubscription_def split: if_splits)
  then show ?thesis
    using assms(3) by (cases obj) (auto simp: Let_def)
qed

theorem issued_request_completes_once_witness:
  "getPrice ''item1'' ''sku1'' =
     [Request (requestPrice ''item1'' ''sku1''), Connect SLOT_priceResponse] \<and>
   returns (requestPrice ''item1'' ''sku1'') (PriceReplyObject price_found) \<and>
   invoke SLOT_priceResponse (Some (PriceReplyObject price_found)) =
     Inr [Emit (priceResponseSuccess ''$0.99''), DeleteLater (PriceReplyObject price_found)]"
proof -
  have a: "getPrice ''item1'' ''sku1'' = purchase ''item1'' ''sku1'' [] [] \<or>
      getPrice ''item1'' ''sku1'' = getExisting False \<or>
      getPrice ''item1'' ''sku1'' = getPrice ''item1'' ''sku1'' \<or>
      getPrice ''item1'' ''sku1'' = getSubscriptionTerms ''item1'' ''sku1'' \<or>
      getPrice ''item1'' ''sku1'' = checkSubscriptionStatus ''item1'' ''sku1'' \<or>
      getPrice ''item1'' ''sku1'' = cancelSubscription ''item1''"
    by simp
  have b: "getPrice ''item1'' ''sku1'' =
      [Request (requestPrice ''item1'' ''sku1''), Connect SLOT_priceResponse]"
    by (simp add: getPrice_def)
  have c: "returns (requestPrice ''item1'' ''sku1'') (PriceReplyObject price_found)"
    by simp
  show ?thesis
    using b c issued_request_completes_once [OF a b c]
    by (simp add: price_found_def)
qed

text \<open>
  No operation emits a signal itself: every notification comes from a slot, when a reply
  has finished.
\<close>

theorem operations_emit_nothing:
  "emitted (purchase i sku name metadata) = [] \<and>
   emitted (getExisting refresh) = [] \<and>
   emitted (getPrice i sku) = [] \<and>
   emitted (getSubscriptionTerms i sku) = [] \<and>
   emitted (checkSubscriptionStatus i sku) = [] \<and>
   emitted (cancelSubscription i) = []"
  by (simp add: purchase_def getExisting_def getPrice_def getSubscriptionTerms_def
        checkSubscriptionStatus_def cancelSubscription_def)

end
